theory Spec2Isabelle
  imports Complex_Main "HOL-Library.Log_Nat"
begin

section \<open>Data model (shared schema)\<close>

text \<open>
  The tables of the relational store, one record per row type. A \<open>varchar\<close> or
  \<open>text\<close> column is a string, a nullable column is an \<open>option\<close>, a \<open>serial\<close> key
  is a natural number, a timestamp is a number of milliseconds. An \<open>integer\<close> column
  holds 32-bit signed values: the rows carry integers, and every statement that writes
  such a column checks the range (\<open>int4\<close> below) and raises outside it, as the store
  does. Field names carry a one-letter prefix for the table, since the schema reuses
  \<open>id\<close>, \<open>userId\<close>, \<open>amount\<close> and \<open>status\<close> across tables.
\<close>

type_synonym timestamp = nat

datatype json = JNull | JBool bool | JNum int | JStr string
  | JArr "json list" | JObj "(string \<times> json) list"

record User =
  u_id :: string
  u_email :: string
  u_firstName :: "string option"
  u_lastName :: "string option"
  u_profileImageUrl :: "string option"
  u_gemBalance :: int
  u_isVerified :: bool
  u_verificationCode :: "string option"
  u_status :: string
  u_isAdmin :: bool
  u_createdAt :: timestamp
  u_updatedAt :: timestamp

record Survey =
  s_id :: nat
  s_title :: string
  s_description :: string
  s_duration :: int
  s_reward :: int
  s_questions :: json
  s_isActive :: bool
  s_participantCount :: int
  s_createdAt :: timestamp

record SurveyResponse =
  r_id :: nat
  r_userId :: string
  r_surveyId :: nat
  r_responses :: json
  r_completedAt :: timestamp
  r_gemAwarded :: int

record Transaction =
  t_id :: nat
  t_userId :: string
  t_type :: string
  t_amount :: int
  t_description :: string
  t_surveyId :: "nat option"
  t_withdrawalId :: "nat option"
  t_offerwallProvider :: "string option"
  t_offerwallOfferId :: "string option"
  t_createdAt :: timestamp

record WithdrawalRequest =
  w_id :: nat
  w_userId :: string
  w_amount :: int
  w_walletAddress :: string
  w_status :: string
  w_adminNotes :: "string option"
  w_requestedAt :: timestamp
  w_processedAt :: "timestamp option"
  w_processedBy :: "string option"

record SecurityLog =
  l_id :: nat
  l_userId :: "string option"
  l_action :: string
  l_details :: "json option"
  l_ipAddress :: "string option"
  l_userAgent :: "string option"
  l_createdAt :: timestamp

text \<open>The store: one list of rows per table.\<close>

record db =
  users :: "User list"
  surveys :: "Survey list"
  surveyResponses :: "SurveyResponse list"
  transactions :: "Transaction list"
  withdrawalRequests :: "WithdrawalRequest list"
  securityLogs :: "SecurityLog list"

text \<open>
  What a statement of the store can raise: a foreign-key violation (the \<open>references\<close>
  clauses of the schema), a unique violation (\<open>users.email\<close> is \<open>unique\<close>), a value
  outside the range of an \<open>integer\<close> column, a null in a \<open>notNull\<close> column; and the
  \<open>TypeError\<close> of reading a property of \<open>undefined\<close> in a handler.
\<close>

datatype error =
  ForeignKeyViolation | UniqueViolation | NumericValueOutOfRange | NotNullViolation
  | TypeError

text \<open>The values of an \<open>integer\<close> column.\<close>

definition int4 :: "int \<Rightarrow> bool" where
  "int4 i = (- 2147483648 \<le> i \<and> i \<le> 2147483647)"

text \<open>\<open>const [row] = await db.select()...\<close>: the first row, or \<open>undefined\<close>.\<close>

definition first_row :: "'a list \<Rightarrow> 'a option" where
  "first_row xs = (case xs of [] \<Rightarrow> None | x # _ \<Rightarrow> Some x)"

text \<open>A \<open>serial\<close> column hands out a key that no row of the table has.\<close>

definition next_id :: "nat list \<Rightarrow> nat" where
  "next_id ids = Suc (fold max ids 0)"

text \<open>Decimal rendering of a number inside a template literal.\<close>

fun show_nat :: "nat \<Rightarrow> string" where
  "show_nat n =
     (if n < 10 then [char_of (48 + n)]
      else show_nat (n div 10) @ [char_of (48 + n mod 10)])"

definition show_int :: "int \<Rightarrow> string" where
  "show_int i = (if i < 0 then CHR ''-'' # show_nat (nat (- i)) else show_nat (nat i))"

section \<open>Storage facade (DatabaseStorage)\<close>

text \<open>
  Every operation is one statement of the store, \<open>createSurveyResponse\<close> apart,
  which is three. A statement either fails, leaving the store as it was, or returns
  its result and the new store. The clock value \<open>now\<close> stands for \<open>new Date()\<close> and
  \<open>defaultNow()\<close>.
\<close>

definition getUser :: "db \<Rightarrow> string \<Rightarrow> User option" where
  "getUser s uid = first_row (filter (\<lambda>u. u_id u = uid) (users s))"

text \<open>The two foreign-key targets of the schema: \<open>users.id\<close> and \<open>surveys.id\<close>.\<close>

definition user_exists :: "db \<Rightarrow> string \<Rightarrow> bool" where
  "user_exists s uid = list_ex (\<lambda>u. u_id u = uid) (users s)"

definition survey_exists :: "db \<Rightarrow> nat \<Rightarrow> bool" where
  "survey_exists s sid = list_ex (\<lambda>v. s_id v = sid) (surveys s)"

text \<open>
  The identity fields of \<open>upsertUserSchema\<close>. The three profile fields are optional
  and nullable: \<open>None\<close> is an absent key (\<open>undefined\<close>), \<open>Some None\<close> is \<open>null\<close>.
  An absent key takes the column default on insert and is left out of the \<open>SET\<close> list
  on update.
\<close>

record UpsertUser =
  uu_id :: string
  uu_email :: string
  uu_firstName :: "string option option"
  uu_lastName :: "string option option"
  uu_profileImageUrl :: "string option option"

definition insert_value :: "'a option option \<Rightarrow> 'a option" where
  "insert_value x = (case x of None \<Rightarrow> None | Some v \<Rightarrow> v)"

definition set_value :: "'a option option \<Rightarrow> 'a option \<Rightarrow> 'a option" where
  "set_value x old = (case x of None \<Rightarrow> old | Some v \<Rightarrow> v)"

definition operator_email :: string where
  "operator_email = ''5minutessurvey@gmail.com''"

definition upsertUser :: "db \<Rightarrow> timestamp \<Rightarrow> UpsertUser \<Rightarrow> error + (User \<times> db)" where
  "upsertUser s now userData =
     (case getUser s (uu_id userData) of
        None \<Rightarrow>
          if list_ex (\<lambda>u. u_email u = uu_email userData) (users s)
          then Inl UniqueViolation
          else
            let user =
              \<lparr>u_id = uu_id userData, u_email = uu_email userData,
               u_firstName = insert_value (uu_firstName userData),
               u_lastName = insert_value (uu_lastName userData),
               u_profileImageUrl = insert_value (uu_profileImageUrl userData),
               u_gemBalance = 0, u_isVerified = False, u_verificationCode = None,
               u_status = ''active'',
               u_isAdmin = (uu_email userData = operator_email),
               u_createdAt = now, u_updatedAt = now\<rparr>
            in Inr (user, s\<lparr>users := users s @ [user]\<rparr>)
      | Some existing \<Rightarrow>
          if list_ex (\<lambda>u. u_id u \<noteq> uu_id userData \<and> u_email u = uu_email userData) (users s)
          then Inl UniqueViolation
          else
            let upd = (\<lambda>u. u\<lparr>u_id := uu_id userData, u_email := uu_email userData,
                          u_firstName := set_value (uu_firstName userData) (u_firstName u),
                          u_lastName := set_value (uu_lastName userData) (u_lastName u),
                          u_profileImageUrl :=
                            set_value (uu_profileImageUrl userData) (u_profileImageUrl u),
                          u_updatedAt := now\<rparr>)
            in Inr (upd existing,
                    s\<lparr>users := map (\<lambda>u. if u_id u = uu_id userData then upd u else u)
                                   (users s)\<rparr>))"

text \<open>
  The new balance is a parameter of the \<open>UPDATE\<close>: the store refuses a value outside
  the column's range whether or not a row matches.
\<close>

definition updateUserGemBalance :: "db \<Rightarrow> timestamp \<Rightarrow> string \<Rightarrow> int \<Rightarrow> error + db" where
  "updateUserGemBalance s now userId amount =
     (if \<not> int4 amount then Inl NumericValueOutOfRange
      else Inr (s\<lparr>users := map (\<lambda>u. if u_id u = userId
                           then u\<lparr>u_gemBalance := amount, u_updatedAt := now\<rparr>
                           else u) (users s)\<rparr>))"





definition getSurvey :: "db \<Rightarrow> nat \<Rightarrow> Survey option" where
  "getSurvey s sid = first_row (filter (\<lambda>v. s_id v = sid) (surveys s))"

record InsertSurveyResponse =
  ir_surveyId :: nat
  ir_responses :: json
  ir_gemAwarded :: int

text \<open>
  Three statements in a row, with no transaction around them: the insert of the
  response, the rewrite of the user's balance, the rewrite of the survey's participant
  count. A failure of a later statement leaves the earlier writes in place, so the
  operation returns the store it reached together with its result or its error. A
  \<open>null\<close> payload is a null in the \<open>notNull\<close> column \<open>responses\<close>.
\<close>

definition createSurveyResponse ::
  "db \<Rightarrow> timestamp \<Rightarrow> string \<Rightarrow> InsertSurveyResponse \<Rightarrow> (error + SurveyResponse) \<times> db" where
  "createSurveyResponse s now userId response =
     (if ir_responses response = JNull then (Inl NotNullViolation, s)
      else if \<not> int4 (ir_gemAwarded response) then (Inl NumericValueOutOfRange, s)
      else if \<not> user_exists s userId then (Inl ForeignKeyViolation, s)
      else if \<not> survey_exists s (ir_surveyId response) then (Inl ForeignKeyViolation, s)
      else
        let surveyResponse =
              \<lparr>r_id = next_id (map r_id (surveyResponses s)),
               r_userId = userId, r_surveyId = ir_surveyId response,
               r_responses = ir_responses response, r_completedAt = now,
               r_gemAwarded = ir_gemAwarded response\<rparr>;
            s1 = s\<lparr>surveyResponses := surveyResponses s @ [surveyResponse]\<rparr>
        in
        case (case getUser s1 userId of
                Some user \<Rightarrow>
                  updateUserGemBalance s1 now userId
                    (u_gemBalance user + ir_gemAwarded response)
              | None \<Rightarrow> Inr s1) of
          Inl e \<Rightarrow> (Inl e, s1)
        | Inr s2 \<Rightarrow>
          (case getSurvey s2 (ir_surveyId response) of
             Some survey \<Rightarrow>
               if \<not> int4 (s_participantCount survey + 1)
               then (Inl NumericValueOutOfRange, s2)
               else (Inr surveyResponse,
                     s2\<lparr>surveys := map (\<lambda>v. if s_id v = ir_surveyId response
                              then v\<lparr>s_participantCount := s_participantCount survey + 1\<rparr>
                              else v) (surveys s2)\<rparr>)
           | None \<Rightarrow> (Inr surveyResponse, s2)))"

text \<open>Newest first; the order among equal timestamps is the store's choice.\<close>

definition getUserSurveyResponses :: "db \<Rightarrow> string \<Rightarrow> SurveyResponse list" where
  "getUserSurveyResponses s userId =
     rev (sort_key r_completedAt (filter (\<lambda>r. r_userId r = userId) (surveyResponses s)))"

record TransactionInput =
  ti_userId :: string
  ti_type :: string
  ti_amount :: int
  ti_description :: string
  ti_surveyId :: "nat option"
  ti_withdrawalId :: "nat option"
  ti_offerwallProvider :: "string option"
  ti_offerwallOfferId :: "string option"

definition createTransaction ::
  "db \<Rightarrow> timestamp \<Rightarrow> TransactionInput \<Rightarrow> error + (Transaction \<times> db)" where
  "createTransaction s now tx =
     (if \<not> int4 (ti_amount tx) then Inl NumericValueOutOfRange
      else if \<not> user_exists s (ti_userId tx) then Inl ForeignKeyViolation
      else if (case ti_surveyId tx of None \<Rightarrow> False | Some sid \<Rightarrow> \<not> survey_exists s sid)
      then Inl ForeignKeyViolation
      else
        let newTransaction =
          \<lparr>t_id = next_id (map t_id (transactions s)),
           t_userId = ti_userId tx, t_type = ti_type tx, t_amount = ti_amount tx,
           t_description = ti_description tx, t_surveyId = ti_surveyId tx,
           t_withdrawalId = ti_withdrawalId tx,
           t_offerwallProvider = ti_offerwallProvider tx,
           t_offerwallOfferId = ti_offerwallOfferId tx, t_createdAt = now\<rparr>
        in Inr (newTransaction, s\<lparr>transactions := transactions s @ [newTransaction]\<rparr>))"

record InsertWithdrawalRequest =
  iw_amount :: int
  iw_walletAddress :: string

definition createWithdrawalRequest ::
  "db \<Rightarrow> timestamp \<Rightarrow> string \<Rightarrow> InsertWithdrawalRequest \<Rightarrow> error + (WithdrawalRequest \<times> db)" where
  "createWithdrawalRequest s now userId request =
     (if \<not> int4 (iw_amount request) then Inl NumericValueOutOfRange
      else if \<not> user_exists s userId then Inl ForeignKeyViolation
      else
        let withdrawal =
          \<lparr>w_id = next_id (map w_id (withdrawalRequests s)),
           w_userId = userId, w_amount = iw_amount request,
           w_walletAddress = iw_walletAddress request, w_status = ''pending'',
           w_adminNotes = None, w_requestedAt = now, w_processedAt = None,
           w_processedBy = None\<rparr>
        in Inr (withdrawal, s\<lparr>withdrawalRequests := withdrawalRequests s @ [withdrawal]\<rparr>))"

text \<open>
  The validated body of an adjudication: \<open>status\<close> is one of the two decisions,
  \<open>adminNotes\<close> is optional (an absent key leaves the column as it is).
\<close>

datatype decision = approved | rejected

definition decision_string :: "decision \<Rightarrow> string" where
  "decision_string d = (case d of approved \<Rightarrow> ''approved'' | rejected \<Rightarrow> ''rejected'')"

record UpdateWithdrawalStatus =
  uw_status :: decision
  uw_adminNotes :: "string option"

text \<open>The row of a withdrawal id (the first one, as \<open>const [withdrawal]\<close> takes it).\<close>

definition withdrawal_row :: "db \<Rightarrow> nat \<Rightarrow> WithdrawalRequest option" where
  "withdrawal_row s wid = first_row (filter (\<lambda>w. w_id w = wid) (withdrawalRequests s))"

definition updateWithdrawalStatus ::
  "db \<Rightarrow> timestamp \<Rightarrow> nat \<Rightarrow> UpdateWithdrawalStatus \<Rightarrow> string
     \<Rightarrow> error + (WithdrawalRequest option \<times> db)" where
  "updateWithdrawalStatus s now wid status processedBy =
     (if \<not> list_ex (\<lambda>w. w_id w = wid) (withdrawalRequests s) then Inr (None, s)
      else if \<not> user_exists s processedBy then Inl ForeignKeyViolation
      else
        let upd = (\<lambda>w. w\<lparr>w_status := decision_string (uw_status status),
                        w_adminNotes :=
                          (case uw_adminNotes status of
                             None \<Rightarrow> w_adminNotes w | Some n \<Rightarrow> Some n),
                        w_processedBy := Some processedBy,
                        w_processedAt := Some now\<rparr>);
            s' = s\<lparr>withdrawalRequests :=
                     map (\<lambda>w. if w_id w = wid then upd w else w) (withdrawalRequests s)\<rparr>
        in Inr (withdrawal_row s' wid, s'))"

definition getUserPendingWithdrawal :: "db \<Rightarrow> string \<Rightarrow> WithdrawalRequest option" where
  "getUserPendingWithdrawal s userId =
     first_row (filter (\<lambda>w. w_userId w = userId \<and> w_status w = ''pending'')
                  (withdrawalRequests s))"

record SecurityLogInput =
  li_userId :: "string option"
  li_action :: string
  li_details :: "json option"
  li_ipAddress :: "string option"
  li_userAgent :: "string option"

definition createSecurityLog ::
  "db \<Rightarrow> timestamp \<Rightarrow> SecurityLogInput \<Rightarrow> error + (SecurityLog \<times> db)" where
  "createSecurityLog s now entry =
     (if (case li_userId entry of None \<Rightarrow> False | Some uid \<Rightarrow> \<not> user_exists s uid)
      then Inl ForeignKeyViolation
      else
        let securityLog =
          \<lparr>l_id = next_id (map l_id (securityLogs s)),
           l_userId = li_userId entry, l_action = li_action entry,
           l_details = li_details entry, l_ipAddress = li_ipAddress entry,
           l_userAgent = li_userAgent entry, l_createdAt = now\<rparr>
        in Inr (securityLog, s\<lparr>securityLogs := securityLogs s @ [securityLog]\<rparr>))"

subsection \<open>JavaScript numbers in \<open>getUserStats\<close>\<close>






text \<open>The value of the literal \<open>0.05\<close>: the double nearest to 5/100.\<close>

definition literal_0_05 :: rat where
  "literal_0_05 = 3602879701896397 / 72057594037927936"







section \<open>Request handlers (routes)\<close>

text \<open>
  A handler takes the store, the clock, the session's user object \<open>req.user\<close>, the
  validated request and the requester's address and user agent; it returns the HTTP
  response and the store as the handler left it. \<open>Json x\<close> is \<open>res.json(x)\<close>;
  \<open>Status c m\<close> is \<open>res.status(c).json({ message: m })\<close>. The writes of a handler
  are separate statements: its \<open>catch\<close> turns an error into status 500 and keeps the
  writes made before the error. The gates \<open>isAuthenticated\<close> and \<open>isAdmin\<close> run
  before a handler and are not part of it. The request is taken after validation: a
  body that the schema refuses makes \<open>parse\<close> throw before the first storage call.
\<close>

datatype 'a response = Json 'a | Status nat string

definition opt_field :: "string \<Rightarrow> string option \<Rightarrow> (string \<times> json) list" where
  "opt_field k v = (case v of None \<Rightarrow> [] | Some x \<Rightarrow> [(k, JStr x)])"

text \<open>\<open>POST /api/surveys/:id/complete\<close>\<close>

definition complete_survey ::
  "db \<Rightarrow> timestamp \<Rightarrow> User \<Rightarrow> nat \<Rightarrow> json \<Rightarrow> string option \<Rightarrow> string option
     \<Rightarrow> (SurveyResponse \<times> int) response \<times> db" where
  "complete_survey s now user surveyId responses ip userAgent =
     (let userId = u_id user in
      case getSurvey s surveyId of
        None \<Rightarrow> (Status 404 ''Survey not found'', s)
      | Some survey \<Rightarrow>
        let existingResponses = getUserSurveyResponses s userId;
            alreadyCompleted = list_ex (\<lambda>r. r_surveyId r = surveyId) existingResponses
        in
        if alreadyCompleted then (Status 400 ''Survey already completed'', s)
        else
          (case createSurveyResponse s now userId
                 \<lparr>ir_surveyId = surveyId, ir_responses = responses,
                  ir_gemAwarded = s_reward survey\<rparr> of
            (Inl e, s1) \<Rightarrow> (Status 500 ''Failed to complete survey'', s1)
          | (Inr response, s1) \<Rightarrow>
            (case createTransaction s1 now
                \<lparr>ti_userId = userId, ti_type = ''survey_reward'',
                 ti_amount = s_reward survey,
                 ti_description = ''Survey completed: '' @ s_title survey,
                 ti_surveyId = Some surveyId, ti_withdrawalId = None,
                 ti_offerwallProvider = None, ti_offerwallOfferId = None\<rparr> of
              Inl e \<Rightarrow> (Status 500 ''Failed to complete survey'', s1)
            | Inr (tx, s2) \<Rightarrow>
              (case createSecurityLog s2 now
                  \<lparr>li_userId = Some userId, li_action = ''survey_completed'',
                   li_details = Some (JObj
                     [(''surveyId'', JNum (int surveyId)),
                      (''reward'', JNum (s_reward survey))]),
                   li_ipAddress = ip, li_userAgent = userAgent\<rparr> of
                Inl e \<Rightarrow> (Status 500 ''Failed to complete survey'', s2)
              | Inr (lg, s3) \<Rightarrow> (Json (response, s_reward survey), s3)))))"

text \<open>\<open>POST /api/withdrawals\<close>\<close>

definition request_withdrawal ::
  "db \<Rightarrow> timestamp \<Rightarrow> User \<Rightarrow> InsertWithdrawalRequest \<Rightarrow> string option \<Rightarrow> string option
     \<Rightarrow> WithdrawalRequest response \<times> db" where
  "request_withdrawal s now user validatedData ip userAgent =
     (let userId = u_id user in
      case getUserPendingWithdrawal s userId of
        Some pendingWithdrawal \<Rightarrow>
          (Status 400 ''You already have a pending withdrawal request'', s)
      | None \<Rightarrow>
        if u_gemBalance user < iw_amount validatedData
        then (Status 400 ''Insufficient gem balance'', s)
        else if iw_amount validatedData < 100
        then (Status 400 ''Minimum withdrawal amount is 100 gems'', s)
        else
          (case createWithdrawalRequest s now userId validatedData of
            Inl e \<Rightarrow> (Status 500 ''Failed to create withdrawal request'', s)
          | Inr (withdrawal, s1) \<Rightarrow>
            (case createTransaction s1 now
                \<lparr>ti_userId = userId, ti_type = ''withdrawal_request'',
                 ti_amount = - iw_amount validatedData,
                 ti_description = ''Withdrawal requested: ''
                    @ show_int (iw_amount validatedData) @ '' gems'',
                 ti_surveyId = None, ti_withdrawalId = Some (w_id withdrawal),
                 ti_offerwallProvider = None, ti_offerwallOfferId = None\<rparr> of
              Inl e \<Rightarrow> (Status 500 ''Failed to create withdrawal request'', s1)
            | Inr (tx, s2) \<Rightarrow>
              (case updateUserGemBalance s2 now userId
                      (u_gemBalance user - iw_amount validatedData) of
                Inl e \<Rightarrow> (Status 500 ''Failed to create withdrawal request'', s2)
              | Inr s3 \<Rightarrow>
                (case createSecurityLog s3 now
                    \<lparr>li_userId = Some userId, li_action = ''withdrawal_requested'',
                     li_details = Some (JObj
                       [(''amount'', JNum (iw_amount validatedData)),
                        (''walletAddress'', JStr (iw_walletAddress validatedData))]),
                     li_ipAddress = ip, li_userAgent = userAgent\<rparr> of
                  Inl e \<Rightarrow> (Status 500 ''Failed to create withdrawal request'', s3)
                | Inr (lg, s4) \<Rightarrow> (Json withdrawal, s4))))))"





text \<open>
  \<open>PATCH /api/admin/withdrawals/:id\<close>. When no row has the id, \<open>withdrawal\<close> is
  \<open>undefined\<close> and reading \<open>withdrawal.userId\<close> throws; the \<open>catch\<close> answers 500.
\<close>

definition admin_update_withdrawal ::
  "db \<Rightarrow> timestamp \<Rightarrow> User \<Rightarrow> nat \<Rightarrow> UpdateWithdrawalStatus \<Rightarrow> string option
     \<Rightarrow> string option \<Rightarrow> WithdrawalRequest response \<times> db" where
  "admin_update_withdrawal s now user withdrawalId validatedData ip userAgent =
     (let adminId = u_id user in
      case updateWithdrawalStatus s now withdrawalId validatedData adminId of
        Inl e \<Rightarrow> (Status 500 ''Failed to update withdrawal'', s)
      | Inr (None, s1) \<Rightarrow> (Status 500 ''Failed to update withdrawal'', s1)
      | Inr (Some withdrawal, s1) \<Rightarrow>
        (case createTransaction s1 now
            \<lparr>ti_userId = w_userId withdrawal,
             ti_type = ''withdrawal_'' @ decision_string (uw_status validatedData),
             ti_amount =
               (if uw_status validatedData = approved then 0 else w_amount withdrawal),
             ti_description = ''Withdrawal '' @ decision_string (uw_status validatedData)
                @ '': '' @ show_int (w_amount withdrawal) @ '' gems'',
             ti_surveyId = None, ti_withdrawalId = Some (w_id withdrawal),
             ti_offerwallProvider = None, ti_offerwallOfferId = None\<rparr> of
          Inl e \<Rightarrow> (Status 500 ''Failed to update withdrawal'', s1)
        | Inr (tx, s2) \<Rightarrow>
          (case (if uw_status validatedData = rejected
                 then (case getUser s2 (w_userId withdrawal) of
                         Some u \<Rightarrow>
                           updateUserGemBalance s2 now (w_userId withdrawal)
                             (u_gemBalance u + w_amount withdrawal)
                       | None \<Rightarrow> Inr s2)
                 else Inr s2) of
            Inl e \<Rightarrow> (Status 500 ''Failed to update withdrawal'', s2)
          | Inr s3 \<Rightarrow>
          (case createSecurityLog s3 now
              \<lparr>li_userId = Some adminId,
               li_action = ''withdrawal_'' @ decision_string (uw_status validatedData),
               li_details = Some (JObj
                 ([(''withdrawalId'', JNum (int withdrawalId)),
                   (''amount'', JNum (w_amount withdrawal)),
                   (''userId'', JStr (w_userId withdrawal))]
                  @ opt_field ''notes'' (uw_adminNotes validatedData))),
               li_ipAddress = ip, li_userAgent = userAgent\<rparr> of
            Inl e \<Rightarrow> (Status 500 ''Failed to update withdrawal'', s3)
          | Inr (lg, s4) \<Rightarrow> (Json withdrawal, s4)))))"


section \<open>The operations of the system as a step relation\<close>



section \<open>Example stores\<close>

text \<open>
  The scenario of the specification: an operator, a user with 110 gems, one survey
  worth 50 gems; then the same store after the user has requested a withdrawal of 100
  gems; then after the operator has approved it.
\<close>

definition operator :: User where
  "operator =
     \<lparr>u_id = ''u0'', u_email = ''5minutessurvey@gmail.com'', u_firstName = None,
      u_lastName = None, u_profileImageUrl = None, u_gemBalance = 0,
      u_isVerified = False, u_verificationCode = None, u_status = ''active'',
      u_isAdmin = True, u_createdAt = 1, u_updatedAt = 1\<rparr>"

definition alice :: User where
  "alice =
     \<lparr>u_id = ''u1'', u_email = ''alice@example.com'', u_firstName = Some ''Alice'',
      u_lastName = None, u_profileImageUrl = None, u_gemBalance = 110,
      u_isVerified = False, u_verificationCode = None, u_status = ''active'',
      u_isAdmin = False, u_createdAt = 2, u_updatedAt = 2\<rparr>"

definition survey1 :: Survey where
  "survey1 =
     \<lparr>s_id = 1, s_title = ''Coffee'', s_description = ''Coffee habits'', s_duration = 5,
      s_reward = 50, s_questions = JArr [], s_isActive = True, s_participantCount = 0,
      s_createdAt = 1\<rparr>"

definition store0 :: db where
  "store0 =
     \<lparr>users = [operator, alice], surveys = [survey1], surveyResponses = [],
      transactions = [], withdrawalRequests = [], securityLogs = []\<rparr>"

definition withdrawal1 :: WithdrawalRequest where
  "withdrawal1 =
     \<lparr>w_id = 1, w_userId = ''u1'', w_amount = 100, w_walletAddress = ''ltc1qexample'',
      w_status = ''pending'', w_adminNotes = None, w_requestedAt = 3,
      w_processedAt = None, w_processedBy = None\<rparr>"

definition response1 :: SurveyResponse where
  "response1 =
     \<lparr>r_id = 1, r_userId = ''u1'', r_surveyId = 1, r_responses = JObj [],
      r_completedAt = 2, r_gemAwarded = 50\<rparr>"

definition store1 :: db where
  "store1 =
     \<lparr>users = [operator, alice\<lparr>u_gemBalance := 10, u_updatedAt := 3\<rparr>],
      surveys = [survey1\<lparr>s_participantCount := 1\<rparr>], surveyResponses = [response1],
      transactions = [], withdrawalRequests = [withdrawal1], securityLogs = []\<rparr>"

text \<open>
  The store after the request, the user having meanwhile earned up to 2147483600 gems.
\<close>

definition store3 :: db where
  "store3 =
     store1\<lparr>users := [operator, alice\<lparr>u_gemBalance := 2147483600, u_updatedAt := 3\<rparr>]\<rparr>"

definition store2 :: db where
  "store2 =
     store1\<lparr>withdrawalRequests :=
        [withdrawal1\<lparr>w_status := ''approved'', w_processedAt := Some 4,
                     w_processedBy := Some ''u0''\<rparr>]\<rparr>"


section \<open>Notation for the verification\<close>

text \<open>The store after the balance of the rows of one user id has been overwritten.\<close>

abbreviation with_balance :: "db \<Rightarrow> timestamp \<Rightarrow> string \<Rightarrow> int \<Rightarrow> db" where
  "with_balance s now uid a \<equiv>
     s\<lparr>users := map (\<lambda>u. if u_id u = uid
                           then u\<lparr>u_gemBalance := a, u_updatedAt := now\<rparr>
                           else u) (users s)\<rparr>"

section \<open>Facts about the storage operations\<close>

lemma first_row_filter_map_upd:
  assumes "\<And>x. k x = j \<Longrightarrow> k (f x) = j"
  shows "first_row (filter (\<lambda>x. k x = i) (map (\<lambda>x. if k x = j then f x else x) xs))
         = (if i = j then map_option f (first_row (filter (\<lambda>x. k x = i) xs))
            else first_row (filter (\<lambda>x. k x = i) xs))"
  by (induction xs) (auto simp: first_row_def assms)

lemma list_ex_map_upd:
  assumes "\<And>x. k x = j \<Longrightarrow> k (f x) = j"
  shows "list_ex (\<lambda>x. k x = i) (map (\<lambda>x. if k x = j then f x else x) xs)
         = list_ex (\<lambda>x. k x = i) xs"
  by (induction xs) (auto simp: assms)

lemma first_row_Some_iff_ex:
  "(first_row (filter P xs) \<noteq> None) = list_ex P xs"
  by (induction xs) (auto simp: first_row_def)

lemma getUser_Some_iff: "(getUser s uid \<noteq> None) = user_exists s uid"
  unfolding getUser_def user_exists_def by (rule first_row_Some_iff_ex)

lemma getSurvey_Some_iff: "(getSurvey s sid \<noteq> None) = survey_exists s sid"
  unfolding getSurvey_def survey_exists_def by (rule first_row_Some_iff_ex)

lemma updateUserGemBalance_Inr:
  assumes "updateUserGemBalance s now uid a = Inr s'"
  shows "int4 a" and "s' = with_balance s now uid a"
  using assms by (auto simp: updateUserGemBalance_def split: if_splits)

lemma updateUserGemBalance_ok:
  "int4 a \<Longrightarrow> updateUserGemBalance s now uid a = Inr (with_balance s now uid a)"
  by (simp add: updateUserGemBalance_def)

lemma getUser_with_balance:
  "getUser (with_balance s now uid a) uid'
   = (if uid' = uid
      then map_option (\<lambda>u. u\<lparr>u_gemBalance := a, u_updatedAt := now\<rparr>) (getUser s uid)
      else getUser s uid')"
  unfolding getUser_def
  using first_row_filter_map_upd[where k=u_id
      and f="\<lambda>u. u\<lparr>u_gemBalance := a, u_updatedAt := now\<rparr>"
      and i=uid' and j=uid and xs="users s"]
  by simp

lemma user_exists_with_balance:
  "user_exists (with_balance s now uid a) uid' = user_exists s uid'"
  unfolding user_exists_def
  using list_ex_map_upd[where k=u_id
      and f="\<lambda>u. u\<lparr>u_gemBalance := a, u_updatedAt := now\<rparr>"
      and i=uid' and j=uid and xs="users s"]
  by simp

lemma already_completed_iff:
  "list_ex (\<lambda>r. r_surveyId r = sid) (getUserSurveyResponses s uid)
   = list_ex (\<lambda>r. r_userId r = uid \<and> r_surveyId r = sid) (surveyResponses s)"
  by (auto simp: getUserSurveyResponses_def list_ex_iff)

lemma createTransaction_Inr:
  assumes "createTransaction s now tx = Inr (t, s')"
  shows "s' = s\<lparr>transactions := transactions s @ [t]\<rparr>"
    and "t_userId t = ti_userId tx" and "t_type t = ti_type tx"
    and "t_amount t = ti_amount tx" and "t_surveyId t = ti_surveyId tx"
    and "t_withdrawalId t = ti_withdrawalId tx"
    and "user_exists s (ti_userId tx)"
  using assms by (auto simp: createTransaction_def Let_def split: if_splits)

lemma createTransaction_ok:
  assumes "int4 (ti_amount tx)" and "user_exists s (ti_userId tx)"
    and "ti_surveyId tx = None \<or> survey_exists s (the (ti_surveyId tx))"
  shows "\<exists>t. createTransaction s now tx = Inr (t, s\<lparr>transactions := transactions s @ [t]\<rparr>)"
  using assms by (auto simp: createTransaction_def Let_def split: option.splits)

lemma createSecurityLog_Inr:
  assumes "createSecurityLog s now entry = Inr (l, s')"
  shows "s' = s\<lparr>securityLogs := securityLogs s @ [l]\<rparr>"
  using assms by (auto simp: createSecurityLog_def Let_def split: if_splits)

lemma createSecurityLog_ok:
  assumes "li_userId entry = Some uid" and "user_exists s uid"
  shows "\<exists>l. createSecurityLog s now entry = Inr (l, s\<lparr>securityLogs := securityLogs s @ [l]\<rparr>)"
  using assms by (auto simp: createSecurityLog_def Let_def)

lemma createWithdrawalRequest_Inr:
  assumes "createWithdrawalRequest s now uid req = Inr (w, s')"
  shows "s' = s\<lparr>withdrawalRequests := withdrawalRequests s @ [w]\<rparr>"
    and "w_userId w = uid" and "w_amount w = iw_amount req"
    and "w_status w = ''pending''" and "user_exists s uid"
  using assms by (auto simp: createWithdrawalRequest_def Let_def split: if_splits)

text \<open>
  What the three statements of \<open>createSurveyResponse\<close> do when the user and the survey
  are stored and the payload and the reward are admissible.
\<close>

lemma createSurveyResponse_run:
  assumes u: "getUser s uid = Some u" and v: "getSurvey s (ir_surveyId resp) = Some v"
    and ok: "ir_responses resp \<noteq> JNull" "int4 (ir_gemAwarded resp)"
  shows "createSurveyResponse s now uid resp =
     (let r = \<lparr>r_id = next_id (map r_id (surveyResponses s)),
               r_userId = uid, r_surveyId = ir_surveyId resp,
               r_responses = ir_responses resp, r_completedAt = now,
               r_gemAwarded = ir_gemAwarded resp\<rparr>;
          s1 = s\<lparr>surveyResponses := surveyResponses s @ [r]\<rparr>;
          s2 = with_balance s1 now uid (u_gemBalance u + ir_gemAwarded resp)
      in if \<not> int4 (u_gemBalance u + ir_gemAwarded resp)
         then (Inl NumericValueOutOfRange, s1)
         else if \<not> int4 (s_participantCount v + 1)
         then (Inl NumericValueOutOfRange, s2)
         else (Inr r, s2\<lparr>surveys := map (\<lambda>x. if s_id x = ir_surveyId resp
                                then x\<lparr>s_participantCount := s_participantCount v + 1\<rparr>
                                else x) (surveys s2)\<rparr>))"
proof -
  have ue: "user_exists s uid" using u getUser_Some_iff[of s uid] by simp
  have se: "survey_exists s (ir_surveyId resp)"
    using v getSurvey_Some_iff[of s "ir_surveyId resp"] by simp
  show ?thesis
    using ue se ok u[unfolded getUser_def] v[unfolded getSurvey_def]
    by (simp add: createSurveyResponse_def Let_def getUser_def getSurvey_def
        updateUserGemBalance_def)
qed

lemma createSurveyResponse_Inr:
  assumes "createSurveyResponse s now uid resp = (Inr r, s')"
  shows "surveyResponses s' = surveyResponses s @ [r]"
    and "r_userId r = uid" and "r_surveyId r = ir_surveyId resp"
    and "r_gemAwarded r = ir_gemAwarded resp" and "r_responses r = ir_responses resp"
    and "transactions s' = transactions s"
    and "withdrawalRequests s' = withdrawalRequests s"
    and "securityLogs s' = securityLogs s"
    and "\<exists>u. getUser s uid = Some u
           \<and> getUser s' uid = Some (u\<lparr>u_gemBalance := u_gemBalance u + ir_gemAwarded resp,
                                       u_updatedAt := now\<rparr>)"
    and "\<exists>v. getSurvey s (ir_surveyId resp) = Some v
           \<and> getSurvey s' (ir_surveyId resp)
               = Some (v\<lparr>s_participantCount := s_participantCount v + 1\<rparr>)"
proof -
  from assms have ok: "ir_responses resp \<noteq> JNull" "int4 (ir_gemAwarded resp)"
    and ue: "user_exists s uid" and se: "survey_exists s (ir_surveyId resp)"
    by (auto simp: createSurveyResponse_def split: if_splits)
  from ue obtain u where u: "getUser s uid = Some u"
    using getUser_Some_iff[of s uid] by auto
  from se obtain v where v: "getSurvey s (ir_surveyId resp) = Some v"
    using getSurvey_Some_iff[of s "ir_surveyId resp"] by auto
  define r0 where "r0 = \<lparr>r_id = next_id (map r_id (surveyResponses s)),
               r_userId = uid, r_surveyId = ir_surveyId resp,
               r_responses = ir_responses resp, r_completedAt = now,
               r_gemAwarded = ir_gemAwarded resp\<rparr>"
  define s1 where "s1 = s\<lparr>surveyResponses := surveyResponses s @ [r0]\<rparr>"
  define s2 where "s2 = with_balance s1 now uid (u_gemBalance u + ir_gemAwarded resp)"
  from assms createSurveyResponse_run[OF u v ok, of now]
  have r: "r = r0"
    and s': "s' = s2\<lparr>surveys := map (\<lambda>x. if s_id x = ir_surveyId resp
                                then x\<lparr>s_participantCount := s_participantCount v + 1\<rparr>
                                else x) (surveys s2)\<rparr>"
    unfolding r0_def s1_def s2_def Let_def by (auto split: if_splits)
  have u1: "getUser s1 uid = Some u" using u by (simp add: s1_def getUser_def)
  have v2: "getSurvey s2 (ir_surveyId resp) = Some v"
    using v by (simp add: s2_def s1_def getSurvey_def)
  show "surveyResponses s' = surveyResponses s @ [r]"
    and "transactions s' = transactions s"
    and "withdrawalRequests s' = withdrawalRequests s"
    and "securityLogs s' = securityLogs s"
    by (simp_all add: s' s2_def s1_def r)
  show "r_userId r = uid" and "r_surveyId r = ir_surveyId resp"
    and "r_gemAwarded r = ir_gemAwarded resp" and "r_responses r = ir_responses resp"
    by (simp_all add: r r0_def)
  have "getUser s' uid = getUser s2 uid" by (simp add: s' getUser_def)
  then have "getUser s' uid = Some (u\<lparr>u_gemBalance := u_gemBalance u + ir_gemAwarded resp,
                                       u_updatedAt := now\<rparr>)"
    unfolding s2_def by (simp add: getUser_with_balance u1)
  with u show "\<exists>u. getUser s uid = Some u
           \<and> getUser s' uid = Some (u\<lparr>u_gemBalance := u_gemBalance u + ir_gemAwarded resp,
                                       u_updatedAt := now\<rparr>)" by simp
  have "getSurvey s' (ir_surveyId resp)
        = map_option (\<lambda>x. x\<lparr>s_participantCount := s_participantCount v + 1\<rparr>)
            (getSurvey s2 (ir_surveyId resp))"
    unfolding getSurvey_def s'
    using first_row_filter_map_upd[where k=s_id
        and f="\<lambda>x. x\<lparr>s_participantCount := s_participantCount v + 1\<rparr>"
        and i="ir_surveyId resp" and j="ir_surveyId resp" and xs="surveys s2"]
    by simp
  with v v2 show "\<exists>v. getSurvey s (ir_surveyId resp) = Some v
           \<and> getSurvey s' (ir_surveyId resp)
               = Some (v\<lparr>s_participantCount := s_participantCount v + 1\<rparr>)" by simp
qed

lemmas example_defs =
  store0_def store1_def store2_def store3_def operator_def alice_def survey1_def
  withdrawal1_def response1_def operator_email_def

lemmas storage_defs =
  getUser_def user_exists_def survey_exists_def getSurvey_def first_row_def next_id_def
  updateUserGemBalance_def createSurveyResponse_def getUserSurveyResponses_def
  createTransaction_def createWithdrawalRequest_def updateWithdrawalStatus_def
  withdrawal_row_def getUserPendingWithdrawal_def createSecurityLog_def
  decision_string_def opt_field_def show_int_def int4_def Let_def

section \<open>Survey completion\<close>

lemma complete_survey_Json:
  assumes "complete_survey s now user sid responses ip ua = (Json (r, g), s')"
  obtains survey s1 t s2 lg where
    "getSurvey s sid = Some survey" "g = s_reward survey"
    "\<not> list_ex (\<lambda>r. r_surveyId r = sid) (getUserSurveyResponses s (u_id user))"
    "createSurveyResponse s now (u_id user)
       \<lparr>ir_surveyId = sid, ir_responses = responses, ir_gemAwarded = s_reward survey\<rparr>
     = (Inr r, s1)"
    "createTransaction s1 now
       \<lparr>ti_userId = u_id user, ti_type = ''survey_reward'', ti_amount = s_reward survey,
        ti_description = ''Survey completed: '' @ s_title survey,
        ti_surveyId = Some sid, ti_withdrawalId = None,
        ti_offerwallProvider = None, ti_offerwallOfferId = None\<rparr> = Inr (t, s2)"
    "createSecurityLog s2 now
       \<lparr>li_userId = Some (u_id user), li_action = ''survey_completed'',
        li_details = Some (JObj [(''surveyId'', JNum (int sid)),
                                 (''reward'', JNum (s_reward survey))]),
        li_ipAddress = ip, li_userAgent = ua\<rparr> = Inr (lg, s')"
  using assms
  by (auto simp: complete_survey_def Let_def
      split: option.splits if_splits sum.splits prod.splits)

text \<open>
  When the stored user has not answered the existing survey, the payload is not
  \<open>null\<close>, and the reward, the new balance and the new participant count are within the
  range of their columns, the handler succeeds.
\<close>

lemma complete_survey_succeeds:
  assumes "getUser s (u_id user) = Some u" and "getSurvey s sid = Some survey"
    and "\<not> list_ex (\<lambda>r. r_userId r = u_id user \<and> r_surveyId r = sid) (surveyResponses s)"
    and "responses \<noteq> JNull" and "int4 (s_reward survey)"
    and "int4 (u_gemBalance u + s_reward survey)"
    and "int4 (s_participantCount survey + 1)"
  shows "\<exists>r s'. complete_survey s now user sid responses ip ua
                 = (Json (r, s_reward survey), s')"
proof -
  define resp where "resp =
    \<lparr>ir_surveyId = sid, ir_responses = responses, ir_gemAwarded = s_reward survey\<rparr>"
  have "\<exists>r s1. createSurveyResponse s now (u_id user) resp = (Inr r, s1)"
    using createSurveyResponse_run[of s "u_id user" u resp survey now] assms
    by (simp add: resp_def Let_def)
  then obtain r s1 where cr: "createSurveyResponse s now (u_id user) resp = (Inr r, s1)"
    by blast
  note e = createSurveyResponse_Inr[OF cr, unfolded resp_def, simplified]
  have ue1: "user_exists s1 (u_id user)"
    using e(9) getUser_Some_iff[of s1 "u_id user"] by auto
  have se1: "survey_exists s1 sid"
    using e(10) getSurvey_Some_iff[of s1 sid] by auto
  define tx where "tx = \<lparr>ti_userId = u_id user, ti_type = ''survey_reward'',
        ti_amount = s_reward survey,
        ti_description = ''Survey completed: '' @ s_title survey,
        ti_surveyId = Some sid, ti_withdrawalId = None,
        ti_offerwallProvider = None, ti_offerwallOfferId = None\<rparr>"
  have "int4 (ti_amount tx)" "user_exists s1 (ti_userId tx)"
    "survey_exists s1 (the (ti_surveyId tx))"
    using ue1 se1 assms(5) by (simp_all add: tx_def)
  then obtain t where ct: "createTransaction s1 now tx
       = Inr (t, s1\<lparr>transactions := transactions s1 @ [t]\<rparr>)"
    using createTransaction_ok[of tx s1 now] by blast
  have ue2: "user_exists (s1\<lparr>transactions := transactions s1 @ [t]\<rparr>) (u_id user)"
    using ue1 by (simp add: user_exists_def)
  define entry where "entry = \<lparr>li_userId = Some (u_id user), li_action = ''survey_completed'',
        li_details = Some (JObj [(''surveyId'', JNum (int sid)),
                                 (''reward'', JNum (s_reward survey))]),
        li_ipAddress = ip, li_userAgent = ua\<rparr>"
  have "li_userId entry = Some (u_id user)" by (simp add: entry_def)
  then obtain lg where cl: "createSecurityLog (s1\<lparr>transactions := transactions s1 @ [t]\<rparr>) now entry
       = Inr (lg, s1\<lparr>transactions := transactions s1 @ [t]\<rparr>
                 \<lparr>securityLogs := securityLogs (s1\<lparr>transactions := transactions s1 @ [t]\<rparr>) @ [lg]\<rparr>)"
    using createSecurityLog_ok[OF _ ue2, of entry now] by blast
  have "complete_survey s now user sid responses ip ua
        = (Json (r, s_reward survey), s1\<lparr>transactions := transactions s1 @ [t]\<rparr>
                 \<lparr>securityLogs := securityLogs (s1\<lparr>transactions := transactions s1 @ [t]\<rparr>) @ [lg]\<rparr>)"
    using assms(2,3) cr ct cl
    unfolding tx_def entry_def resp_def
    by (simp add: complete_survey_def already_completed_iff del: db.simps)
  then show ?thesis by blast
qed

text \<open>
  C3. A successful run of the survey-completion handler for user U and survey S: S
  exists, U is a stored user without an earlier response to S, exactly one transaction
  is appended, of type \<open>survey_reward\<close> and of S's reward, U's balance grows by that
  reward, S's participant count grows by one, and one response row is appended.
\<close>

theorem complete_survey_effect:
  assumes "complete_survey s now user sid responses ip ua = (Json (r, g), s')"
  shows "\<exists>survey u t.
           getSurvey s sid = Some survey \<and> getUser s (u_id user) = Some u
         \<and> \<not> list_ex (\<lambda>r0. r_userId r0 = u_id user \<and> r_surveyId r0 = sid) (surveyResponses s)
         \<and> g = s_reward survey
         \<and> transactions s' = transactions s @ [t]
         \<and> t_type t = ''survey_reward'' \<and> t_amount t = s_reward survey
         \<and> t_userId t = u_id user \<and> t_surveyId t = Some sid
         \<and> getUser s' (u_id user)
             = Some (u\<lparr>u_gemBalance := u_gemBalance u + s_reward survey, u_updatedAt := now\<rparr>)
         \<and> getSurvey s' sid
             = Some (survey\<lparr>s_participantCount := s_participantCount survey + 1\<rparr>)
         \<and> surveyResponses s' = surveyResponses s @ [r]
         \<and> r_userId r = u_id user \<and> r_surveyId r = sid \<and> r_gemAwarded r = s_reward survey"
proof -
  from assms obtain survey s1 t s2 lg where
    sv: "getSurvey s sid = Some survey" and g: "g = s_reward survey" and
    fresh: "\<not> list_ex (\<lambda>r. r_surveyId r = sid) (getUserSurveyResponses s (u_id user))" and
    cr: "createSurveyResponse s now (u_id user)
       \<lparr>ir_surveyId = sid, ir_responses = responses, ir_gemAwarded = s_reward survey\<rparr>
     = (Inr r, s1)" and
    ct: "createTransaction s1 now
       \<lparr>ti_userId = u_id user, ti_type = ''survey_reward'', ti_amount = s_reward survey,
        ti_description = ''Survey completed: '' @ s_title survey,
        ti_surveyId = Some sid, ti_withdrawalId = None,
        ti_offerwallProvider = None, ti_offerwallOfferId = None\<rparr> = Inr (t, s2)" and
    cl: "createSecurityLog s2 now
       \<lparr>li_userId = Some (u_id user), li_action = ''survey_completed'',
        li_details = Some (JObj [(''surveyId'', JNum (int sid)),
                                 (''reward'', JNum (s_reward survey))]),
        li_ipAddress = ip, li_userAgent = ua\<rparr> = Inr (lg, s')"
    by (rule complete_survey_Json)
  note r = createSurveyResponse_Inr[OF cr, simplified]
  note t = createTransaction_Inr[OF ct, simplified]
  note l = createSecurityLog_Inr[OF cl]
  from r(9) obtain u where u: "getUser s (u_id user) = Some u" and
    u1: "getUser s1 (u_id user)
         = Some (u\<lparr>u_gemBalance := u_gemBalance u + s_reward survey, u_updatedAt := now\<rparr>)"
    by auto
  from r(10) sv have v1: "getSurvey s1 sid
         = Some (survey\<lparr>s_participantCount := s_participantCount survey + 1\<rparr>)"
    by auto
  have s': "s' = s1\<lparr>transactions := transactions s1 @ [t],
                  securityLogs := securityLogs s1 @ [lg]\<rparr>"
    unfolding l t(1) by simp
  have "transactions s' = transactions s @ [t]" by (simp add: s' r(6))
  moreover have "getUser s' (u_id user) = getUser s1 (u_id user)"
    by (simp add: s' getUser_def)
  moreover have "getSurvey s' sid = getSurvey s1 sid"
    by (simp add: s' getSurvey_def)
  moreover have "surveyResponses s' = surveyResponses s @ [r]" by (simp add: s' r(1))
  moreover have "\<not> list_ex (\<lambda>r0. r_userId r0 = u_id user \<and> r_surveyId r0 = sid) (surveyResponses s)"
    using fresh by (simp add: already_completed_iff)
  ultimately show ?thesis
    using sv u u1 v1 g t(2,3,4,5) r(2,3,4) by auto
qed

theorem complete_survey_effect_witness:
  "\<exists>r s' t. complete_survey store0 5 alice 1 (JObj []) None None = (Json (r, 50), s')
     \<and> transactions s' = [t] \<and> t_type t = ''survey_reward'' \<and> t_amount t = 50
     \<and> map_option u_gemBalance (getUser s' ''u1'') = Some 160
     \<and> map_option s_participantCount (getSurvey s' 1) = Some 1
     \<and> surveyResponses s' = [r]"
proof -
  obtain r s' where h: "complete_survey store0 5 alice 1 (JObj []) None None = (Json (r, 50), s')"
    by (simp add: complete_survey_def example_defs storage_defs)
  have a: "getUser store0 ''u1'' = Some alice" and b: "getSurvey store0 1 = Some survey1"
    by (simp_all add: example_defs storage_defs)
  from complete_survey_effect[OF h] a b h show ?thesis
    by (auto simp: alice_def survey1_def store0_def)
qed

text \<open>
  C6. When user U already has a response row for the existing survey S, the handler
  answers 400 ``Survey already completed'' and returns the store as it was: no new
  transaction, no new response, no change of balance or participant count.
\<close>

theorem complete_survey_twice_rejected:
  assumes "getSurvey s sid = Some survey"
    and "list_ex (\<lambda>r0. r_userId r0 = u_id user \<and> r_surveyId r0 = sid) (surveyResponses s)"
  shows "complete_survey s now user sid responses ip ua
         = (Status 400 ''Survey already completed'', s)"
  using assms by (simp add: complete_survey_def already_completed_iff)

theorem complete_survey_twice_rejected_witness:
  "getSurvey store1 1 = Some (survey1\<lparr>s_participantCount := 1\<rparr>)
   \<and> list_ex (\<lambda>r0. r_userId r0 = u_id alice \<and> r_surveyId r0 = 1) (surveyResponses store1)
   \<and> complete_survey store1 5 alice 1 (JObj []) None None
       = (Status 400 ''Survey already completed'', store1)"
proof -
  have a: "getSurvey store1 1 = Some (survey1\<lparr>s_participantCount := 1\<rparr>)"
    by (simp add: example_defs storage_defs)
  have b: "list_ex (\<lambda>r0. r_userId r0 = u_id alice \<and> r_surveyId r0 = 1) (surveyResponses store1)"
    by (simp add: example_defs)
  from complete_survey_twice_rejected[OF a b] a b show ?thesis by simp
qed

section \<open>Withdrawal request\<close>

lemma request_withdrawal_Json:
  assumes "request_withdrawal s now user req ip ua = (Json w, s')"
  obtains s1 t s2 lg where
    "getUserPendingWithdrawal s (u_id user) = None"
    "iw_amount req \<le> u_gemBalance user" "100 \<le> iw_amount req"
    "createWithdrawalRequest s now (u_id user) req = Inr (w, s1)"
    "createTransaction s1 now
       \<lparr>ti_userId = u_id user, ti_type = ''withdrawal_request'',
        ti_amount = - iw_amount req,
        ti_description = ''Withdrawal requested: '' @ show_int (iw_amount req) @ '' gems'',
        ti_surveyId = None, ti_withdrawalId = Some (w_id w),
        ti_offerwallProvider = None, ti_offerwallOfferId = None\<rparr> = Inr (t, s2)"
    "int4 (u_gemBalance user - iw_amount req)"
    "createSecurityLog
       (with_balance s2 now (u_id user) (u_gemBalance user - iw_amount req)) now
       \<lparr>li_userId = Some (u_id user), li_action = ''withdrawal_requested'',
        li_details = Some (JObj [(''amount'', JNum (iw_amount req)),
                                 (''walletAddress'', JStr (iw_walletAddress req))]),
        li_ipAddress = ip, li_userAgent = ua\<rparr> = Inr (lg, s')"
  using assms
  by (auto simp: request_withdrawal_def Let_def updateUserGemBalance_def
      split: option.splits if_splits sum.splits prod.splits)

text \<open>
  A stored user without a pending withdrawal who asks for at least 100 gems and at
  most the balance of the request's user object is served, the amount and that
  balance being values of an \<open>integer\<close> column.
\<close>

lemma request_withdrawal_succeeds:
  assumes "user_exists s (u_id user)" and "getUserPendingWithdrawal s (u_id user) = None"
    and "iw_amount req \<le> u_gemBalance user" and "100 \<le> iw_amount req"
    and "int4 (u_gemBalance user)"
  shows "\<exists>w s'. request_withdrawal s now user req ip ua = (Json w, s')"
proof -
  have rng: "int4 (iw_amount req)" "int4 (- iw_amount req)"
    "int4 (u_gemBalance user - iw_amount req)"
    using assms(3,4,5) by (simp_all add: int4_def)
  obtain w s1 where cw: "createWithdrawalRequest s now (u_id user) req = Inr (w, s1)"
    using assms(1) rng(1) by (simp add: createWithdrawalRequest_def Let_def)
  have ue1: "user_exists s1 (u_id user)"
    using assms(1) createWithdrawalRequest_Inr(1)[OF cw] by (simp add: user_exists_def)
  define tx where "tx = \<lparr>ti_userId = u_id user, ti_type = ''withdrawal_request'',
        ti_amount = - iw_amount req,
        ti_description = ''Withdrawal requested: '' @ show_int (iw_amount req) @ '' gems'',
        ti_surveyId = None, ti_withdrawalId = Some (w_id w),
        ti_offerwallProvider = None, ti_offerwallOfferId = None\<rparr>"
  have "int4 (ti_amount tx)" "user_exists s1 (ti_userId tx)" "ti_surveyId tx = None"
    using ue1 rng(2) by (simp_all add: tx_def)
  then obtain t where ct: "createTransaction s1 now tx
       = Inr (t, s1\<lparr>transactions := transactions s1 @ [t]\<rparr>)"
    using createTransaction_ok[of tx s1 now] by blast
  define s3 where "s3 = with_balance (s1\<lparr>transactions := transactions s1 @ [t]\<rparr>)
       now (u_id user) (u_gemBalance user - iw_amount req)"
  have ub: "updateUserGemBalance (s1\<lparr>transactions := transactions s1 @ [t]\<rparr>)
       now (u_id user) (u_gemBalance user - iw_amount req) = Inr s3"
    unfolding s3_def by (rule updateUserGemBalance_ok[OF rng(3)])
  have "user_exists (s1\<lparr>transactions := transactions s1 @ [t]\<rparr>) (u_id user)"
    using ue1 by (simp add: user_exists_def)
  then have ue3: "user_exists s3 (u_id user)"
    unfolding s3_def by (simp only: user_exists_with_balance)
  define entry where "entry = \<lparr>li_userId = Some (u_id user),
        li_action = ''withdrawal_requested'',
        li_details = Some (JObj [(''amount'', JNum (iw_amount req)),
                                 (''walletAddress'', JStr (iw_walletAddress req))]),
        li_ipAddress = ip, li_userAgent = ua\<rparr>"
  have "li_userId entry = Some (u_id user)" by (simp add: entry_def)
  then obtain lg where cl: "createSecurityLog s3 now entry
       = Inr (lg, s3\<lparr>securityLogs := securityLogs s3 @ [lg]\<rparr>)"
    using createSecurityLog_ok[OF _ ue3, of entry now] by blast
  have "request_withdrawal s now user req ip ua
        = (Json w, s3\<lparr>securityLogs := securityLogs s3 @ [lg]\<rparr>)"
    using assms(2,3,4) cw ct[unfolded tx_def] ub cl[unfolded entry_def]
    by (simp add: request_withdrawal_def Let_def del: db.simps)
  then show ?thesis by blast
qed

text \<open>
  C4. A successful run of the withdrawal-request handler for user U and amount N
  appends exactly one withdrawal row, \<open>pending\<close> and of amount N, appends exactly one
  transaction, of type \<open>withdrawal_request\<close> and amount \<open>- N\<close>, and sets U's stored
  balance to U's balance minus N, where U's balance is the one the handler reads: that
  of the request's user object.
\<close>

theorem request_withdrawal_effect:
  assumes "request_withdrawal s now user req ip ua = (Json w, s')"
  shows "withdrawalRequests s' = withdrawalRequests s @ [w]
         \<and> w_status w = ''pending'' \<and> w_amount w = iw_amount req \<and> w_userId w = u_id user
         \<and> (\<exists>t. transactions s' = transactions s @ [t]
                \<and> t_type t = ''withdrawal_request'' \<and> t_amount t = - iw_amount req
                \<and> t_userId t = u_id user \<and> t_withdrawalId t = Some (w_id w))
         \<and> (\<exists>u. getUser s (u_id user) = Some u
                \<and> getUser s' (u_id user)
                    = Some (u\<lparr>u_gemBalance := u_gemBalance user - iw_amount req,
                              u_updatedAt := now\<rparr>))"
proof -
  from assms obtain s1 t s2 lg where
    cw: "createWithdrawalRequest s now (u_id user) req = Inr (w, s1)" and
    ct: "createTransaction s1 now
       \<lparr>ti_userId = u_id user, ti_type = ''withdrawal_request'',
        ti_amount = - iw_amount req,
        ti_description = ''Withdrawal requested: '' @ show_int (iw_amount req) @ '' gems'',
        ti_surveyId = None, ti_withdrawalId = Some (w_id w),
        ti_offerwallProvider = None, ti_offerwallOfferId = None\<rparr> = Inr (t, s2)" and
    cl: "createSecurityLog
       (with_balance s2 now (u_id user) (u_gemBalance user - iw_amount req)) now
       \<lparr>li_userId = Some (u_id user), li_action = ''withdrawal_requested'',
        li_details = Some (JObj [(''amount'', JNum (iw_amount req)),
                                 (''walletAddress'', JStr (iw_walletAddress req))]),
        li_ipAddress = ip, li_userAgent = ua\<rparr> = Inr (lg, s')"
    by (rule request_withdrawal_Json)
  note w = createWithdrawalRequest_Inr[OF cw]
  note t = createTransaction_Inr[OF ct, simplified]
  note l = createSecurityLog_Inr[OF cl]
  from w(5) obtain u where u: "getUser s (u_id user) = Some u"
    using getUser_Some_iff[of s "u_id user"] by auto
  have s2: "getUser s2 (u_id user) = Some u"
    using u by (simp add: t(1) w(1) getUser_def)
  have "getUser s' (u_id user)
        = getUser (with_balance s2 now (u_id user)
                     (u_gemBalance user - iw_amount req)) (u_id user)"
    by (subst l) (simp add: getUser_def)
  also have "\<dots> = Some (u\<lparr>u_gemBalance := u_gemBalance user - iw_amount req,
                             u_updatedAt := now\<rparr>)"
    by (simp add: getUser_with_balance s2 del: db.simps)
  finally have bal: "getUser s' (u_id user)
     = Some (u\<lparr>u_gemBalance := u_gemBalance user - iw_amount req, u_updatedAt := now\<rparr>)" .
  have wr: "withdrawalRequests s' = withdrawalRequests s @ [w]"
    unfolding l t(1) w(1) by simp
  have tr: "transactions s' = transactions s @ [t]"
    unfolding l t(1) w(1) by simp
  show ?thesis
    using wr tr bal u w(2,3,4) t(2,3,4,6) by auto
qed

theorem request_withdrawal_effect_witness:
  "\<exists>w s' t. request_withdrawal store0 5 alice
               \<lparr>iw_amount = 100, iw_walletAddress = ''ltc1qexample''\<rparr> None None
             = (Json w, s')
     \<and> withdrawalRequests s' = [w] \<and> w_status w = ''pending'' \<and> w_amount w = 100
     \<and> transactions s' = [t] \<and> t_type t = ''withdrawal_request'' \<and> t_amount t = - 100
     \<and> map_option u_gemBalance (getUser s' ''u1'') = Some 10"
proof -
  obtain w s' where h: "request_withdrawal store0 5 alice
       \<lparr>iw_amount = 100, iw_walletAddress = ''ltc1qexample''\<rparr> None None = (Json w, s')"
    by (simp add: request_withdrawal_def example_defs storage_defs)
  have a: "getUser store0 ''u1'' = Some alice"
    by (simp add: example_defs storage_defs)
  from request_withdrawal_effect[OF h] a h show ?thesis
    by (auto simp: alice_def store0_def)
qed

text \<open>
  C5. Whenever the requester already has a pending withdrawal, or the requested amount
  exceeds the gem balance of the request's user object, or the amount is below 100,
  the withdrawal-request handler answers with status 400 and returns the store exactly
  as it was: no withdrawal row, no transaction, no balance change.
\<close>

theorem request_withdrawal_rejects:
  assumes "getUserPendingWithdrawal s (u_id user) \<noteq> None
           \<or> u_gemBalance user < iw_amount req \<or> iw_amount req < 100"
  shows "request_withdrawal s now user req ip ua
         = (Status 400
              (if getUserPendingWithdrawal s (u_id user) \<noteq> None
               then ''You already have a pending withdrawal request''
               else if u_gemBalance user < iw_amount req then ''Insufficient gem balance''
               else ''Minimum withdrawal amount is 100 gems''), s)"
  using assms by (auto simp: request_withdrawal_def Let_def split: option.splits)

theorem request_withdrawal_rejects_witness:
  "request_withdrawal store0 5 alice \<lparr>iw_amount = 50, iw_walletAddress = ''ltc1qexample''\<rparr>
     None None
   = (Status 400 ''Minimum withdrawal amount is 100 gems'', store0)
   \<and> request_withdrawal store0 5 alice \<lparr>iw_amount = 200, iw_walletAddress = ''ltc1qexample''\<rparr>
     None None
   = (Status 400 ''Insufficient gem balance'', store0)
   \<and> request_withdrawal store1 5 (alice\<lparr>u_gemBalance := 500\<rparr>)
       \<lparr>iw_amount = 100, iw_walletAddress = ''ltc1qexample''\<rparr> None None
   = (Status 400 ''You already have a pending withdrawal request'', store1)"
proof -
  have p0: "getUserPendingWithdrawal store0 (u_id alice) = None"
    by (simp add: example_defs storage_defs)
  have p1: "getUserPendingWithdrawal store1 (u_id (alice\<lparr>u_gemBalance := 500\<rparr>)) = Some withdrawal1"
    by (simp add: example_defs storage_defs)
  have b: "u_gemBalance alice = 110" by (simp add: alice_def)
  show ?thesis
    using request_withdrawal_rejects[of store0 alice
            "\<lparr>iw_amount = 50, iw_walletAddress = ''ltc1qexample''\<rparr>" 5 None None]
          request_withdrawal_rejects[of store0 alice
            "\<lparr>iw_amount = 200, iw_walletAddress = ''ltc1qexample''\<rparr>" 5 None None]
          request_withdrawal_rejects[of store1 "alice\<lparr>u_gemBalance := 500\<rparr>"
            "\<lparr>iw_amount = 100, iw_walletAddress = ''ltc1qexample''\<rparr>" 5 None None]
          p0 p1 b
    by simp
qed

section \<open>Withdrawal adjudication\<close>


lemma withdrawal_row_None_iff:
  "(withdrawal_row s wid = None) = (\<not> list_ex (\<lambda>x. w_id x = wid) (withdrawalRequests s))"
  unfolding withdrawal_row_def
  using first_row_Some_iff_ex[of "\<lambda>x. w_id x = wid" "withdrawalRequests s"]
  by blast


lemma updateWithdrawalStatus_None:
  assumes "withdrawal_row s wid = None"
  shows "updateWithdrawalStatus s now wid vd adminId = Inr (None, s)"
  using assms by (simp add: updateWithdrawalStatus_def withdrawal_row_None_iff)

lemma admin_update_withdrawal_not_found:
  assumes "withdrawal_row s wid = None"
  shows "admin_update_withdrawal s now admin wid vd ip ua
         = (Status 500 ''Failed to update withdrawal'', s)"
  by (simp add: admin_update_withdrawal_def updateWithdrawalStatus_None[OF assms])





text \<open>
  C7. For a withdrawal id that no row has, the handler leaves the store unchanged, but
  it answers 500, not 404: \<open>updateWithdrawalStatus\<close> returns \<open>undefined\<close> and the handler
  reads \<open>withdrawal.userId\<close> without a check.
\<close>

theorem admin_update_withdrawal_unknown_id:
  "withdrawal_row store1 7 = None
   \<and> admin_update_withdrawal store1 5 operator 7
        \<lparr>uw_status = approved, uw_adminNotes = None\<rparr> None None
      = (Status 500 ''Failed to update withdrawal'', store1)"
proof -
  have a: "withdrawal_row store1 7 = None"
    by (simp add: example_defs storage_defs)
  from admin_update_withdrawal_not_found[OF a] a show ?thesis by simp
qed

section \<open>The withdrawal lifecycle under all operations\<close>

















section \<open>Admin statistics\<close>

subsection \<open>Rounding to a double\<close>














subsection \<open>The sum and the product of \<open>getUserStats\<close>\<close>



lemma literal_0_05_value: "literal_0_05 = 1 / 20 + 1 / (5 * 2 ^ 56)"
  by (simp add: literal_0_05_def)






section \<open>Sign-in\<close>

lemma filter_other_map_upd:
  assumes "\<And>x. k x = j \<Longrightarrow> k (f x) = j"
  shows "filter (\<lambda>x. k x \<noteq> j) (map (\<lambda>x. if k x = j then f x else x) xs)
         = filter (\<lambda>x. k x \<noteq> j) xs"
  by (induction xs) (auto simp: assms)

text \<open>
  The email column is unique and the upsert resolves conflicts on the id only: a new id
  with the email of an existing user inserts nothing.
\<close>

theorem upsertUser_new_id_counterexample:
  "getUser store0 ''u9'' = None
   \<and> upsertUser store0 5
        \<lparr>uu_id = ''u9'', uu_email = ''alice@example.com'', uu_firstName = None,
         uu_lastName = None, uu_profileImageUrl = None\<rparr>
      = Inl UniqueViolation"
  by (simp add: upsertUser_def example_defs storage_defs)

text \<open>
  C9, amended. For identity fields whose id matches no existing user: when the email
  is that of no existing user either, \<open>upsertUser\<close> appends a new user row with the
  column defaults, whose admin flag is true exactly when the email is the operator
  address, and returns it; when the email is taken, the insert fails with a unique
  violation.
\<close>

theorem upsertUser_inserts:
  assumes "getUser s (uu_id d) = None"
  shows "if list_ex (\<lambda>u. u_email u = uu_email d) (users s)
         then upsertUser s now d = Inl UniqueViolation
         else (\<exists>u. upsertUser s now d = Inr (u, s\<lparr>users := users s @ [u]\<rparr>)
                 \<and> getUser (s\<lparr>users := users s @ [u]\<rparr>) (uu_id d) = Some u
                 \<and> u_id u = uu_id d \<and> u_email u = uu_email d
                 \<and> u_isAdmin u = (uu_email d = ''5minutessurvey@gmail.com'')
                 \<and> u_gemBalance u = 0 \<and> u_status u = ''active'' \<and> \<not> u_isVerified u)"
proof (cases "list_ex (\<lambda>u. u_email u = uu_email d) (users s)")
  case True
  then show ?thesis using assms by (simp add: upsertUser_def)
next
  case False
  have none: "filter (\<lambda>u. u_id u = uu_id d) (users s) = []"
    using assms by (simp add: getUser_def first_row_def split: list.splits)
  show ?thesis
    using False assms none
    by (simp add: upsertUser_def Let_def operator_email_def getUser_def first_row_def)
qed

theorem upsertUser_inserts_witness:
  "(\<exists>u. upsertUser store0 5
           \<lparr>uu_id = ''u2'', uu_email = ''bob@example.com'', uu_firstName = Some (Some ''Bob''),
            uu_lastName = None, uu_profileImageUrl = None\<rparr>
         = Inr (u, store0\<lparr>users := users store0 @ [u]\<rparr>)
       \<and> \<not> u_isAdmin u \<and> u_gemBalance u = 0)
   \<and> (\<exists>u. upsertUser (store0\<lparr>users := [alice]\<rparr>) 5
           \<lparr>uu_id = ''u0'', uu_email = ''5minutessurvey@gmail.com'', uu_firstName = None,
            uu_lastName = None, uu_profileImageUrl = None\<rparr>
         = Inr (u, store0\<lparr>users := [alice] @ [u]\<rparr>)
       \<and> u_isAdmin u)"
proof -
  have a: "getUser store0 (uu_id \<lparr>uu_id = ''u2'', uu_email = ''bob@example.com'',
            uu_firstName = Some (Some ''Bob''), uu_lastName = None,
            uu_profileImageUrl = None\<rparr>) = None"
    and b: "getUser (store0\<lparr>users := [alice]\<rparr>) (uu_id \<lparr>uu_id = ''u0'',
            uu_email = ''5minutessurvey@gmail.com'', uu_firstName = None,
            uu_lastName = None, uu_profileImageUrl = None\<rparr>) = None"
    by (simp_all add: example_defs storage_defs)
  have c: "\<not> list_ex (\<lambda>u. u_email u = ''bob@example.com'') (users store0)"
    and d: "\<not> list_ex (\<lambda>u. u_email u = ''5minutessurvey@gmail.com'')
              (users (store0\<lparr>users := [alice]\<rparr>))"
    by (simp_all add: example_defs)
  from upsertUser_inserts[OF a, of 5] c
  have 1: "\<exists>u. upsertUser store0 5
           \<lparr>uu_id = ''u2'', uu_email = ''bob@example.com'', uu_firstName = Some (Some ''Bob''),
            uu_lastName = None, uu_profileImageUrl = None\<rparr>
         = Inr (u, store0\<lparr>users := users store0 @ [u]\<rparr>)
       \<and> \<not> u_isAdmin u \<and> u_gemBalance u = 0"
    by auto
  from upsertUser_inserts[OF b, of 5] d
  have 2: "\<exists>u. upsertUser (store0\<lparr>users := [alice]\<rparr>) 5
           \<lparr>uu_id = ''u0'', uu_email = ''5minutessurvey@gmail.com'', uu_firstName = None,
            uu_lastName = None, uu_profileImageUrl = None\<rparr>
         = Inr (u, store0\<lparr>users := [alice] @ [u]\<rparr>)
       \<and> u_isAdmin u"
    by auto
  from 1 2 show ?thesis by (rule conjI)
qed

text \<open>
  C10. When the id matches an existing user and the upsert goes through, every user
  row keeps its id, gem balance, admin flag, status, verification fields and creation
  time, the rows of other ids are unchanged, no other table changes, and the matched
  row differs from the old one only in email, first name, last name, profile image and
  \<open>updatedAt\<close>.
\<close>

theorem upsertUser_existing_frame:
  assumes "getUser s (uu_id d) = Some u0" and "upsertUser s now d = Inr (u, s')"
  shows "u = u0\<lparr>u_email := uu_email d,
                 u_firstName := set_value (uu_firstName d) (u_firstName u0),
                 u_lastName := set_value (uu_lastName d) (u_lastName u0),
                 u_profileImageUrl := set_value (uu_profileImageUrl d) (u_profileImageUrl u0),
                 u_updatedAt := now\<rparr>
       \<and> getUser s' (uu_id d) = Some u
       \<and> u_gemBalance u = u_gemBalance u0 \<and> u_isAdmin u = u_isAdmin u0
       \<and> u_status u = u_status u0 \<and> u_isVerified u = u_isVerified u0
       \<and> u_verificationCode u = u_verificationCode u0 \<and> u_createdAt u = u_createdAt u0
       \<and> map u_id (users s') = map u_id (users s)
       \<and> map u_gemBalance (users s') = map u_gemBalance (users s)
       \<and> map u_isAdmin (users s') = map u_isAdmin (users s)
       \<and> map u_status (users s') = map u_status (users s)
       \<and> map u_isVerified (users s') = map u_isVerified (users s)
       \<and> map u_verificationCode (users s') = map u_verificationCode (users s)
       \<and> filter (\<lambda>x. u_id x \<noteq> uu_id d) (users s') = filter (\<lambda>x. u_id x \<noteq> uu_id d) (users s)
       \<and> s'\<lparr>users := users s\<rparr> = s"
proof -
  let ?upd = "\<lambda>x. x\<lparr>u_id := uu_id d, u_email := uu_email d,
                 u_firstName := set_value (uu_firstName d) (u_firstName x),
                 u_lastName := set_value (uu_lastName d) (u_lastName x),
                 u_profileImageUrl := set_value (uu_profileImageUrl d) (u_profileImageUrl x),
                 u_updatedAt := now\<rparr>"
  have id0: "u_id u0 = uu_id d"
  proof -
    from assms(1) obtain rest where
      "filter (\<lambda>x. u_id x = uu_id d) (users s) = u0 # rest"
      by (auto simp: getUser_def first_row_def split: list.splits)
    then have "u0 \<in> set (filter (\<lambda>x. u_id x = uu_id d) (users s))"
      by (metis list.set_intros(1))
    then show ?thesis by simp
  qed
  from assms have u: "u = ?upd u0"
    and s': "s' = s\<lparr>users := map (\<lambda>x. if u_id x = uu_id d then ?upd x else x) (users s)\<rparr>"
    by (auto simp: upsertUser_def Let_def split: if_splits)
  have same: "?upd u0 = u0\<lparr>u_email := uu_email d,
                 u_firstName := set_value (uu_firstName d) (u_firstName u0),
                 u_lastName := set_value (uu_lastName d) (u_lastName u0),
                 u_profileImageUrl := set_value (uu_profileImageUrl d) (u_profileImageUrl u0),
                 u_updatedAt := now\<rparr>"
    using id0 by simp
  have get: "getUser s' (uu_id d) = Some u"
    unfolding getUser_def s' u
    using first_row_filter_map_upd[where k=u_id and f="?upd" and i="uu_id d" and j="uu_id d"
        and xs="users s"] assms(1)
    by (simp add: getUser_def)
  have maps: "map u_id (users s') = map u_id (users s)"
    "map u_gemBalance (users s') = map u_gemBalance (users s)"
    "map u_isAdmin (users s') = map u_isAdmin (users s)"
    "map u_status (users s') = map u_status (users s)"
    "map u_isVerified (users s') = map u_isVerified (users s)"
    "map u_verificationCode (users s') = map u_verificationCode (users s)"
    by (simp_all add: s' comp_def cong: map_cong)
  have others: "filter (\<lambda>x. u_id x \<noteq> uu_id d) (users s')
                = filter (\<lambda>x. u_id x \<noteq> uu_id d) (users s)"
    unfolding s'
    using filter_other_map_upd[where k=u_id and f="?upd" and j="uu_id d" and xs="users s"]
    by simp
  have rest: "s'\<lparr>users := users s\<rparr> = s" by (simp add: s')
  show ?thesis
    using u same get maps others rest by simp
qed

theorem upsertUser_existing_frame_witness:
  "getUser store1 ''u0'' = Some operator
   \<and> (\<exists>u s'. upsertUser store1 9
          \<lparr>uu_id = ''u0'', uu_email = ''new@example.com'', uu_firstName = Some (Some ''Op''),
           uu_lastName = None, uu_profileImageUrl = Some None\<rparr> = Inr (u, s')
        \<and> u_isAdmin u \<and> u_email u = ''new@example.com''
        \<and> map u_gemBalance (users s') = [0, 10]
        \<and> map u_isAdmin (users s') = [True, False])"
proof -
  have a: "getUser store1 (uu_id \<lparr>uu_id = ''u0'', uu_email = ''new@example.com'',
           uu_firstName = Some (Some ''Op''), uu_lastName = None,
           uu_profileImageUrl = Some None\<rparr>) = Some operator"
    by (simp add: example_defs storage_defs)
  obtain u s' where b: "upsertUser store1 9
          \<lparr>uu_id = ''u0'', uu_email = ''new@example.com'', uu_firstName = Some (Some ''Op''),
           uu_lastName = None, uu_profileImageUrl = Some None\<rparr> = Inr (u, s')"
    by (simp add: upsertUser_def example_defs storage_defs)
  have c: "map u_gemBalance (users store1) = [0, 10]"
    "map u_isAdmin (users store1) = [True, False]" "u_isAdmin operator"
    by (simp_all add: example_defs)
  from upsertUser_existing_frame[OF a b] a b c show ?thesis by auto
qed

end
